theory Spec2Isabelle
  imports Complex_Main "HOL-Library.Word"
begin

unbundle bit_operations_syntax

section \<open>Machine integers\<close>

text \<open>
  The C++ \<open>int\<close> and \<open>int32_t\<close> of the sources are 32-bit two's complement values, modelled
  as \<open>32 word\<close>: \<open>+\<close>, \<open>-\<close> and unary minus wrap around, and \<open>sint\<close> reads the signed value.
  Signed overflow, which C++ leaves undefined, is taken as the wrap-around of the hardware.
  \<open>uint32_t\<close> is \<open>32 word\<close> read by \<open>unat\<close>.
\<close>

type_synonym int32 = "32 word"
type_synonym uint32 = "32 word"

section \<open>Edge flags\<close>

text \<open>
  The enumeration \<open>wlr_edges\<close> comes from the wlroots headers that \<open>geometry.hpp\<close> includes
  (\<open>WLR_EDGE_TOP = 1 << 0\<close>, \<open>WLR_EDGE_BOTTOM = 1 << 1\<close>, \<open>WLR_EDGE_LEFT = 1 << 2\<close>,
  \<open>WLR_EDGE_RIGHT = 1 << 3\<close>).
\<close>

definition WLR_EDGE_NONE :: uint32 where "WLR_EDGE_NONE = 0"
definition WLR_EDGE_TOP :: uint32 where "WLR_EDGE_TOP = 1"
definition WLR_EDGE_BOTTOM :: uint32 where "WLR_EDGE_BOTTOM = 2"
definition WLR_EDGE_LEFT :: uint32 where "WLR_EDGE_LEFT = 4"
definition WLR_EDGE_RIGHT :: uint32 where "WLR_EDGE_RIGHT = 8"

text \<open>A C++ condition \<open>(tiled_edges & WLR_EDGE_X)\<close> is true when the conjunction is not zero.\<close>

definition edge_set :: "uint32 \<Rightarrow> uint32 \<Rightarrow> bool" where
  "edge_set tiled_edges edge = (tiled_edges AND edge \<noteq> 0)"

section \<open>geometry.hpp: points, boxes and displacements\<close>

record point_t =
  x :: int32
  y :: int32

text \<open>
  A \<open>double\<close> is a finite value, an infinity or a NaN. Every finite double is a (dyadic)
  real number, so a statement about all \<open>Finite r\<close> covers all finite doubles.
\<close>

datatype double = Finite real | PlusInfinity | MinusInfinity | NaN

record pointf_t =
  x :: double
  y :: double

text \<open>
  \<open>static_cast<int>(double)\<close> discards the fractional part (truncation toward zero). When
  the truncated value is not representable in \<open>int\<close>, and for the infinities and NaN, C++
  leaves the behaviour undefined; as with signed overflow, the model takes the result of
  the hardware, whose conversion instruction then delivers \<open>INT_MIN\<close>.
\<close>

definition truncate_toward_zero :: "real \<Rightarrow> int" where
  "truncate_toward_zero r = (if 0 \<le> r then \<lfloor>r\<rfloor> else \<lceil>r\<rceil>)"

definition INT_MIN :: int32 where
  "INT_MIN = - 2147483648"

definition static_cast_int :: "double \<Rightarrow> int32" where
  "static_cast_int d =
     (case d of
        Finite r \<Rightarrow>
          (let k = truncate_toward_zero r
           in if - (2 ^ 31) \<le> k \<and> k < 2 ^ 31 then word_of_int k else INT_MIN)
      | PlusInfinity \<Rightarrow> INT_MIN
      | MinusInfinity \<Rightarrow> INT_MIN
      | NaN \<Rightarrow> INT_MIN)"

text \<open>
  \<open>pointf_t::round_down\<close>: each coordinate goes through \<open>static_cast<int>\<close> on its own.
\<close>

definition round_down :: "pointf_t \<Rightarrow> point_t" where
  "round_down p =
     \<lparr>point_t.x = static_cast_int (pointf_t.x p), y = static_cast_int (pointf_t.y p)\<rparr>"

record dimensions_t =
  width :: int32
  height :: int32

text \<open>\<open>geometry_t\<close> is \<open>wlr_box\<close>: origin and size.\<close>

record geometry_t =
  x :: int32
  y :: int32
  width :: int32
  height :: int32

text \<open>\<open>rectangle_t\<close>: top-left corner inclusive, bottom-right corner exclusive.\<close>

record rectangle_t =
  x1 :: int32
  y1 :: int32
  x2 :: int32
  y2 :: int32

text \<open>The constructor \<open>rectangle_t(geometry_t g)\<close>.\<close>

definition rectangle_of_geometry :: "geometry_t \<Rightarrow> rectangle_t" where
  "rectangle_of_geometry g =
     \<lparr>x1 = x g, y1 = y g, x2 = x g + width g, y2 = y g + height g\<rparr>"

text \<open>The conversion \<open>rectangle_t::operator geometry_t()\<close>.\<close>

definition geometry_of_rectangle :: "rectangle_t \<Rightarrow> geometry_t" where
  "geometry_of_rectangle r =
     \<lparr>x = x1 r, y = y1 r, width = x2 r - x1 r, height = y2 r - y1 r\<rparr>"

text \<open>
  \<open>geometry_difference_t\<close>: an outward displacement of the four edges, fields in the order
  of the struct. The field \<open>top\<close> of the source is \<open>top'\<close> here (\<open>top\<close> is a constant of HOL).
\<close>

record geometry_difference_t =
  left :: int32
  right :: int32
  bottom :: int32
  top' :: int32

text \<open>A value-initialised \<open>geometry_difference_t\<close>, the default argument \<open>{}\<close>.\<close>

definition no_difference :: geometry_difference_t where
  "no_difference = \<lparr>left = 0, right = 0, bottom = 0, top' = 0\<rparr>"

text \<open>\<open>operator +(geometry_t, geometry_difference_t)\<close>.\<close>

definition geometry_plus :: "geometry_t \<Rightarrow> geometry_difference_t \<Rightarrow> geometry_t" where
  "geometry_plus g m =
     \<lparr>x = x g - left m, y = y g - top' m,
      width = width g + left m + right m, height = height g + top' m + bottom m\<rparr>"

text \<open>\<open>operator -(geometry_t, geometry_difference_t)\<close>.\<close>

definition geometry_minus :: "geometry_t \<Rightarrow> geometry_difference_t \<Rightarrow> geometry_t" where
  "geometry_minus g m =
     \<lparr>x = x g + left m, y = y g + top' m,
      width = width g - left m - right m, height = height g - top' m - bottom m\<rparr>"

text \<open>\<open>operator -(geometry_t to, geometry_t from)\<close>.\<close>

definition geometry_diff :: "geometry_t \<Rightarrow> geometry_t \<Rightarrow> geometry_difference_t" where
  "geometry_diff to from =
     \<lparr>left = x from - x to,
      right = x to + width to - (x from + width from),
      bottom = y to + height to - (y from + height from),
      top' = y from - y to\<rparr>"

text \<open>\<open>operator -(geometry_difference_t)\<close>.\<close>

definition difference_negate :: "geometry_difference_t \<Rightarrow> geometry_difference_t" where
  "difference_negate delta =
     \<lparr>left = - left delta, right = - right delta, bottom = - bottom delta, top' = - top' delta\<rparr>"

text \<open>
  \<open>expand_geometry_if\<close>: the box goes to corner form, each corner coordinate moves by the
  displacement chosen for its edge, and the rectangle is converted back on return.
\<close>

definition expand_geometry_if ::
  "geometry_t \<Rightarrow> uint32 \<Rightarrow> geometry_difference_t \<Rightarrow> geometry_difference_t \<Rightarrow> geometry_t" where
  "expand_geometry_if geometry_in tiled_edges tiled_edge_delta delta =
     (let rectangle = rectangle_of_geometry geometry_in;
          rectangle = rectangle\<lparr>x1 := x1 rectangle -
            (if edge_set tiled_edges WLR_EDGE_LEFT then left tiled_edge_delta else left delta)\<rparr>;
          rectangle = rectangle\<lparr>y1 := y1 rectangle -
            (if edge_set tiled_edges WLR_EDGE_TOP then top' tiled_edge_delta else top' delta)\<rparr>;
          rectangle = rectangle\<lparr>x2 := x2 rectangle +
            (if edge_set tiled_edges WLR_EDGE_RIGHT then right tiled_edge_delta else right delta)\<rparr>;
          rectangle = rectangle\<lparr>y2 := y2 rectangle +
            (if edge_set tiled_edges WLR_EDGE_BOTTOM then bottom tiled_edge_delta else bottom delta)\<rparr>
      in geometry_of_rectangle rectangle)"

text \<open>\<open>geometry_switch_if\<close>: per edge, the corner coordinate of \<open>g1\<close> or of \<open>g0\<close>.\<close>

definition geometry_switch_if :: "uint32 \<Rightarrow> rectangle_t \<Rightarrow> rectangle_t \<Rightarrow> rectangle_t" where
  "geometry_switch_if tiled_edges g1 g0 =
     \<lparr>x1 = (if edge_set tiled_edges WLR_EDGE_LEFT then x1 g1 else x1 g0),
      y1 = (if edge_set tiled_edges WLR_EDGE_TOP then y1 g1 else y1 g0),
      x2 = (if edge_set tiled_edges WLR_EDGE_RIGHT then x2 g1 else x2 g0),
      y2 = (if edge_set tiled_edges WLR_EDGE_BOTTOM then y2 g1 else y2 g0)\<rparr>"

section \<open>Box predicates and intersection\<close>

text \<open>
  The corner coordinates of a box as mathematical integers: the right and bottom edges are
  \<open>x + width\<close> and \<open>y + height\<close> without wrap-around.
\<close>

definition left_edge :: "geometry_t \<Rightarrow> int" where
  "left_edge g = sint (x g)"

definition top_edge :: "geometry_t \<Rightarrow> int" where
  "top_edge g = sint (y g)"

definition right_edge :: "geometry_t \<Rightarrow> int" where
  "right_edge g = sint (x g) + sint (width g)"

definition bottom_edge :: "geometry_t \<Rightarrow> int" where
  "bottom_edge g = sint (y g) + sint (height g)"

text \<open>
  Modelled from the spec: \<open>dimensions(const geometry_t&)\<close> is declared in \<open>geometry.hpp\<close> and
  defined elsewhere; the spec calls it a pure projection.
\<close>

definition dimensions :: "geometry_t \<Rightarrow> dimensions_t" where
  "dimensions g = \<lparr>dimensions_t.width = width g, height = height g\<rparr>"

text \<open>
  Modelled from the spec: \<open>operator &(geometry_t, point_t)\<close> is declared in \<open>geometry.hpp\<close>
  ("returns true if point is inside rect") and defined elsewhere. The spec makes the test
  half-open: left and top edge inclusive, right and bottom edge exclusive, so that a box of
  zero width or height contains nothing.
\<close>

definition point_inside :: "geometry_t \<Rightarrow> point_t \<Rightarrow> bool" where
  "point_inside rect point =
     (left_edge rect \<le> sint (point_t.x point) \<and> sint (point_t.x point) < right_edge rect \<and>
      top_edge rect \<le> sint (point_t.y point) \<and> sint (point_t.y point) < bottom_edge rect)"

text \<open>
  Modelled from the spec: \<open>operator &(geometry_t, geometry_t)\<close> is declared in
  \<open>geometry.hpp\<close> ("returns true if the two geometries have a common point") and defined
  elsewhere. Two boxes overlap when the larger of their left edges lies before the smaller
  of their right edges, and likewise vertically.
\<close>

definition overlap :: "geometry_t \<Rightarrow> geometry_t \<Rightarrow> bool" where
  "overlap r1 r2 =
     (max (left_edge r1) (left_edge r2) < min (right_edge r1) (right_edge r2) \<and>
      max (top_edge r1) (top_edge r2) < min (bottom_edge r1) (bottom_edge r2))"

text \<open>
  Modelled from the spec: \<open>geometry_intersection\<close> is declared in \<open>geometry.hpp\<close> and defined
  elsewhere. It returns the overlapping region of the two boxes; when they do not overlap,
  the result has zero width and height, and its origin is left open by the spec and the
  header comment, so the model takes that origin as the parameter \<open>unspecified\<close>.
\<close>

definition geometry_intersection :: "point_t \<Rightarrow> geometry_t \<Rightarrow> geometry_t \<Rightarrow> geometry_t" where
  "geometry_intersection unspecified r1 r2 =
     (if overlap r1 r2
      then \<lparr>x = word_of_int (max (left_edge r1) (left_edge r2)),
            y = word_of_int (max (top_edge r1) (top_edge r2)),
            width = word_of_int
              (min (right_edge r1) (right_edge r2) - max (left_edge r1) (left_edge r2)),
            height = word_of_int
              (min (bottom_edge r1) (bottom_edge r2) - max (top_edge r1) (top_edge r2))\<rparr>
      else \<lparr>x = point_t.x unspecified, y = point_t.y unspecified, width = 0, height = 0\<rparr>)"

text \<open>A box lies inside another when none of its four edges sticks out.\<close>

definition box_inside :: "geometry_t \<Rightarrow> geometry_t \<Rightarrow> bool" where
  "box_inside inner outer =
     (left_edge outer \<le> left_edge inner \<and> right_edge inner \<le> right_edge outer \<and>
      top_edge outer \<le> top_edge inner \<and> bottom_edge inner \<le> bottom_edge outer)"

section \<open>Maximization\<close>

text \<open>
  Modelled from the spec: the masks \<open>TILED_EDGES_ALL\<close>, \<open>TILED_EDGES_VERTICAL\<close> and
  \<open>TILED_EDGES_HORIZONTAL\<close>, which \<open>tiled_edges_to_string\<close> compares against, are defined
  outside the sources. The spec names them as the derived masks: all four edges, the
  vertical pair (top and bottom) and the horizontal pair (left and right).
\<close>

definition TILED_EDGES_ALL :: uint32 where
  "TILED_EDGES_ALL = WLR_EDGE_TOP OR WLR_EDGE_BOTTOM OR WLR_EDGE_LEFT OR WLR_EDGE_RIGHT"

definition TILED_EDGES_VERTICAL :: uint32 where
  "TILED_EDGES_VERTICAL = WLR_EDGE_TOP OR WLR_EDGE_BOTTOM"

definition TILED_EDGES_HORIZONTAL :: uint32 where
  "TILED_EDGES_HORIZONTAL = WLR_EDGE_LEFT OR WLR_EDGE_RIGHT"

text \<open>
  Modelled from the spec: the class \<open>maximization_t\<close> lives in \<open>wayfire/maximization.hpp\<close>,
  which is not among the sources. The spec gives its four states, and its conversion to an
  edge mask: \<open>horizontal\<close> is left and right, \<open>vertical\<close> is top and bottom, \<open>full\<close> is all
  four edges, \<open>none\<close> is no edge.
\<close>

datatype maximization_t = none | vertical | horizontal | full

text \<open>
  Modelled from the spec: \<open>maximization_t::as_tiled_edges\<close>, the mask of a state, with
  \<open>full\<close> giving back all four edges.
\<close>

fun as_tiled_edges :: "maximization_t \<Rightarrow> uint32" where
  "as_tiled_edges none = 0"
| "as_tiled_edges vertical = TILED_EDGES_VERTICAL"
| "as_tiled_edges horizontal = TILED_EDGES_HORIZONTAL"
| "as_tiled_edges full = TILED_EDGES_ALL"

section \<open>Toplevel state\<close>

record toplevel_state_t =
  mapped :: bool
  geometry :: geometry_t
  gravity :: uint32
  tiled_edges :: uint32
  fullscreen :: bool
  margins :: geometry_difference_t

text \<open>The default member initialisers of \<open>toplevel_state_t\<close>.\<close>

definition default_state :: toplevel_state_t where
  "default_state =
     \<lparr>mapped = False,
      geometry = \<lparr>x = 100, y = 100, width = 0, height = 0\<rparr>,
      gravity = WLR_EDGE_LEFT OR WLR_EDGE_TOP,
      tiled_edges = 0,
      fullscreen = False,
      margins = \<lparr>left = 0, right = 0, bottom = 0, top' = 0\<rparr>\<rparr>"

text \<open>\<open>toplevel_state_t::operator =(maximization_t)\<close> stores the mask of the maximization.\<close>

definition assign_maximization :: "toplevel_state_t \<Rightarrow> maximization_t \<Rightarrow> toplevel_state_t" where
  "assign_maximization s maximization = s\<lparr>tiled_edges := as_tiled_edges maximization\<rparr>"

definition get_tiled_edges :: "toplevel_state_t \<Rightarrow> uint32" where
  "get_tiled_edges s = tiled_edges s"

definition set_tiled_edges :: "toplevel_state_t \<Rightarrow> uint32 \<Rightarrow> toplevel_state_t" where
  "set_tiled_edges s new_tiled_edges = s\<lparr>tiled_edges := new_tiled_edges\<rparr>"

subsection \<open>Member access of \<open>toplevel_state_t\<close>\<close>

text \<open>
  The access labels of the struct: \<open>mapped\<close>, \<open>geometry\<close> and \<open>gravity\<close> come before the
  \<open>private:\<close> label, \<open>tiled_edges\<close> is the one member after it, and everything from
  \<open>fullscreen\<close> on (the conversions and comparisons with \<open>maximization_t\<close>,
  \<open>get_tiled_edges\<close> and \<open>set_tiled_edges\<close> included) follows a \<open>public:\<close> label.
\<close>

datatype access_specifier = Public | Private

datatype member =
    member_mapped
  | member_geometry
  | member_gravity
  | member_tiled_edges
  | member_fullscreen
  | member_margins
  | member_to_maximization
  | member_assign_maximization
  | member_compare_maximization
  | member_get_tiled_edges
  | member_set_tiled_edges

fun access_of :: "member \<Rightarrow> access_specifier" where
  "access_of member_tiled_edges = Private"
| "access_of _ = Public"

text \<open>
  The code that touches a \<open>toplevel_state_t\<close>: the five classes of the friend declarations,
  and any other code.
\<close>

datatype client =
    toplevel_view_interface_t
  | wayfire_resize
  | wayfire_decoration
  | grid_animation_t
  | view_node_t
  | other_code

fun is_friend :: "client \<Rightarrow> bool" where
  "is_friend other_code = False"
| "is_friend _ = True"

text \<open>C++ access checking: a public member is open to all code, a private one to friends.\<close>

definition may_access :: "client \<Rightarrow> member \<Rightarrow> bool" where
  "may_access c m = (access_of m = Public \<or> is_friend c)"

subsection \<open>The three copies of the state\<close>

text \<open>
  \<open>toplevel_t\<close> holds \<open>_current\<close>, \<open>_pending\<close> and \<open>_committed\<close>; the fields carry the names of
  their accessors. \<open>pending()\<close> returns a mutable reference: a caller's mutation is a
  function applied to the pending copy.
\<close>

record toplevel_t =
  current :: toplevel_state_t
  pending :: toplevel_state_t
  committed :: toplevel_state_t

definition mutate_pending :: "(toplevel_state_t \<Rightarrow> toplevel_state_t) \<Rightarrow> toplevel_t \<Rightarrow> toplevel_t" where
  "mutate_pending f t = t\<lparr>pending := f (pending t)\<rparr>"

text \<open>
  Modelled from the spec: the members that issue and apply a transaction are implemented by
  the subclasses of \<open>toplevel_t\<close>, which are not among the sources. The spec's commit
  protocol, step 2: the issuer copies \<open>pending\<close> verbatim into \<open>committed\<close>.
\<close>

definition issue_transaction :: "toplevel_t \<Rightarrow> toplevel_t" where
  "issue_transaction t = t\<lparr>committed := pending t\<rparr>"

text \<open>
  Modelled from the spec: commit protocol, step 3. On acknowledgment \<open>committed\<close> is copied
  into \<open>current\<close>; the geometry takes the size the client chose, and the edges named by
  \<open>gravity\<close> stay where they are (a fixed right or bottom edge moves the origin, otherwise
  the origin stays and the opposite edge absorbs the difference).
\<close>

definition adjust_geometry_for_gravity :: "toplevel_state_t \<Rightarrow> dimensions_t \<Rightarrow> toplevel_state_t" where
  "adjust_geometry_for_gravity desired_state actual_size =
     desired_state\<lparr>geometry :=
       \<lparr>x = (if edge_set (gravity desired_state) WLR_EDGE_RIGHT
              then x (geometry desired_state) +
                (width (geometry desired_state) - dimensions_t.width actual_size)
              else x (geometry desired_state)),
        y = (if edge_set (gravity desired_state) WLR_EDGE_BOTTOM
              then y (geometry desired_state) +
                (height (geometry desired_state) - dimensions_t.height actual_size)
              else y (geometry desired_state)),
        width = dimensions_t.width actual_size,
        height = dimensions_t.height actual_size\<rparr>\<rparr>"

text \<open>
  Modelled from the spec: the acknowledgment carries the size the client chose and
  advances \<open>current\<close>; \<open>pending\<close> and \<open>committed\<close> stay.
\<close>

definition acknowledge :: "toplevel_t \<Rightarrow> dimensions_t \<Rightarrow> toplevel_t" where
  "acknowledge t actual_size =
     t\<lparr>current := adjust_geometry_for_gravity (committed t) actual_size\<rparr>"

subsection \<open>Margins and maximization\<close>

text \<open>
  \<open>expand_geometry_by_margins\<close> and \<open>shrink_geometry_by_margins\<close>: the maximization's mask
  selects the empty displacement \<open>{}\<close>, every other edge gets the margins (negated when
  shrinking).
\<close>

definition expand_geometry_by_margins ::
  "geometry_t \<Rightarrow> geometry_difference_t \<Rightarrow> maximization_t \<Rightarrow> geometry_t" where
  "expand_geometry_by_margins g margins_in maximization =
     expand_geometry_if g (as_tiled_edges maximization) no_difference margins_in"

definition shrink_geometry_by_margins ::
  "geometry_t \<Rightarrow> geometry_difference_t \<Rightarrow> maximization_t \<Rightarrow> geometry_t" where
  "shrink_geometry_by_margins g margins_in maximization =
     expand_geometry_if g (as_tiled_edges maximization) no_difference
       (difference_negate margins_in)"

section \<open>The displacement algebra\<close>

text \<open>
  C1. For all boxes \<open>a\<close> and \<open>b\<close>, adding to \<open>a\<close> the displacement \<open>b - a\<close> gives exactly \<open>b\<close>
  (in every field, also where the 32-bit arithmetic wraps around).
\<close>

theorem add_subtract_inverse: "geometry_plus a (geometry_diff b a) = b"
  by (simp add: geometry_plus_def geometry_diff_def)

text \<open>
  C7. Negating a displacement twice gives it back, and adding a displacement to a box and
  then adding its negation gives the box back.
\<close>

theorem negate_involution_and_inverse:
  "difference_negate (difference_negate d) = d \<and>
   geometry_plus (geometry_plus b d) (difference_negate d) = b"
  by (simp add: geometry_plus_def difference_negate_def)

text \<open>
  C8. \<open>box_add\<close> moves the origin by \<open>left\<close> and \<open>top\<close> and grows the size by \<open>left + right\<close> and
  \<open>top + bottom\<close>. The box \<open>(0, 0, 200, 100)\<close> with the displacement
  \<open>left = 10, right = 10, top = 5, bottom = 5\<close> becomes \<open>(-10, -5, 220, 110)\<close>, and
  subtracting the original box from that result gives the displacement back.
\<close>

theorem box_add_formula_and_scenario:
  "geometry_plus g m =
     \<lparr>x = x g - left m, y = y g - top' m,
      width = width g + (left m + right m), height = height g + (top' m + bottom m)\<rparr> \<and>
   geometry_plus \<lparr>x = 0, y = 0, width = 200, height = 100\<rparr>
       \<lparr>left = 10, right = 10, bottom = 5, top' = 5\<rparr> =
     \<lparr>x = - 10, y = - 5, width = 220, height = 110\<rparr> \<and>
   geometry_diff \<lparr>x = - 10, y = - 5, width = 220, height = 110\<rparr>
       \<lparr>x = 0, y = 0, width = 200, height = 100\<rparr> =
     \<lparr>left = 10, right = 10, bottom = 5, top' = 5\<rparr>"
  by (simp add: geometry_plus_def geometry_diff_def)

text \<open>
  C9. The origin+size form and the corner form convert into each other without loss:
  box to rectangle and back is the box, rectangle to box and back is the rectangle.
\<close>

theorem rectangle_geometry_roundtrip:
  "geometry_of_rectangle (rectangle_of_geometry g) = g \<and>
   rectangle_of_geometry (geometry_of_rectangle r) = r"
  by (simp add: geometry_of_rectangle_def rectangle_of_geometry_def)

text \<open>
  C2. On each of the four edges independently, \<open>expand_geometry_if\<close> applies the active
  displacement's value where the edge's bit is set in the mask and the inactive
  displacement's value elsewhere, as \<open>box_add\<close> would; and expanding by \<open>d\<close> and then by
  the negation of \<open>d\<close> under the same mask (inactive displacement left at its default)
  gives the original box back. The mask ranges over all 32-bit values, the sixteen
  four-bit edge masks among them.
\<close>

theorem expand_geometry_if_per_edge_and_inverse:
  "expand_geometry_if g e active inactive =
     geometry_plus g
       \<lparr>left = (if edge_set e WLR_EDGE_LEFT then left active else left inactive),
        right = (if edge_set e WLR_EDGE_RIGHT then right active else right inactive),
        bottom = (if edge_set e WLR_EDGE_BOTTOM then bottom active else bottom inactive),
        top' = (if edge_set e WLR_EDGE_TOP then top' active else top' inactive)\<rparr> \<and>
   expand_geometry_if (expand_geometry_if g e d no_difference) e (difference_negate d)
     no_difference = g"
  by (simp add: expand_geometry_if_def geometry_plus_def rectangle_of_geometry_def
      geometry_of_rectangle_def no_difference_def difference_negate_def Let_def)

section \<open>Margins and maximization\<close>

text \<open>Which edges each maximization state covers.\<close>

lemma edge_set_as_tiled_edges:
  "edge_set (as_tiled_edges none) WLR_EDGE_LEFT = False"
  "edge_set (as_tiled_edges none) WLR_EDGE_RIGHT = False"
  "edge_set (as_tiled_edges none) WLR_EDGE_TOP = False"
  "edge_set (as_tiled_edges none) WLR_EDGE_BOTTOM = False"
  "edge_set (as_tiled_edges vertical) WLR_EDGE_LEFT = False"
  "edge_set (as_tiled_edges vertical) WLR_EDGE_RIGHT = False"
  "edge_set (as_tiled_edges vertical) WLR_EDGE_TOP = True"
  "edge_set (as_tiled_edges vertical) WLR_EDGE_BOTTOM = True"
  "edge_set (as_tiled_edges horizontal) WLR_EDGE_LEFT = True"
  "edge_set (as_tiled_edges horizontal) WLR_EDGE_RIGHT = True"
  "edge_set (as_tiled_edges horizontal) WLR_EDGE_TOP = False"
  "edge_set (as_tiled_edges horizontal) WLR_EDGE_BOTTOM = False"
  "edge_set (as_tiled_edges full) WLR_EDGE_LEFT = True"
  "edge_set (as_tiled_edges full) WLR_EDGE_RIGHT = True"
  "edge_set (as_tiled_edges full) WLR_EDGE_TOP = True"
  "edge_set (as_tiled_edges full) WLR_EDGE_BOTTOM = True"
  by (simp_all add: edge_set_def TILED_EDGES_ALL_def TILED_EDGES_VERTICAL_def
      TILED_EDGES_HORIZONTAL_def WLR_EDGE_LEFT_def WLR_EDGE_RIGHT_def WLR_EDGE_TOP_def
      WLR_EDGE_BOTTOM_def)

lemma expand_geometry_by_margins_corners:
  "rectangle_of_geometry (expand_geometry_by_margins g m mx) =
     \<lparr>x1 = (if edge_set (as_tiled_edges mx) WLR_EDGE_LEFT then x g else x g - left m),
      y1 = (if edge_set (as_tiled_edges mx) WLR_EDGE_TOP then y g else y g - top' m),
      x2 = (if edge_set (as_tiled_edges mx) WLR_EDGE_RIGHT then x g + width g
            else x g + width g + right m),
      y2 = (if edge_set (as_tiled_edges mx) WLR_EDGE_BOTTOM then y g + height g
            else y g + height g + bottom m)\<rparr>"
  by (simp add: expand_geometry_by_margins_def expand_geometry_if_def rectangle_of_geometry_def
      geometry_of_rectangle_def no_difference_def Let_def)

lemma shrink_expand_inverse:
  "shrink_geometry_by_margins (expand_geometry_by_margins g m mx) m mx = g"
  "expand_geometry_by_margins (shrink_geometry_by_margins g m mx) m mx = g"
  by (simp_all add: expand_geometry_by_margins_def shrink_geometry_by_margins_def
      expand_geometry_if_def rectangle_of_geometry_def geometry_of_rectangle_def
      no_difference_def difference_negate_def Let_def)

lemma expand_geometry_by_margins_states:
  "expand_geometry_by_margins g m none = geometry_plus g m"
  "expand_geometry_by_margins g m full = g"
  "expand_geometry_by_margins g m horizontal =
     \<lparr>x = x g, y = y g - top' m, width = width g, height = height g + top' m + bottom m\<rparr>"
  "expand_geometry_by_margins g m vertical =
     \<lparr>x = x g - left m, y = y g, width = width g + left m + right m, height = height g\<rparr>"
  by (simp_all add: expand_geometry_by_margins_def expand_geometry_if_def
      rectangle_of_geometry_def geometry_of_rectangle_def no_difference_def geometry_plus_def
      edge_set_as_tiled_edges Let_def del: as_tiled_edges.simps)

text \<open>
  C3. \<open>expand_geometry_by_margins\<close> moves exactly the edges that the maximization's mask
  does not cover, each by its margin, and leaves the covered edges where they are (stated
  on the corners of the box, and spelled out for the four maximization states);
  \<open>shrink_geometry_by_margins\<close> with the same margins and maximization undoes it, and is
  undone by it.
\<close>

theorem margins_skip_maximized_edges:
  "rectangle_of_geometry (expand_geometry_by_margins g m mx) =
     \<lparr>x1 = (if edge_set (as_tiled_edges mx) WLR_EDGE_LEFT then x g else x g - left m),
      y1 = (if edge_set (as_tiled_edges mx) WLR_EDGE_TOP then y g else y g - top' m),
      x2 = (if edge_set (as_tiled_edges mx) WLR_EDGE_RIGHT then x g + width g
            else x g + width g + right m),
      y2 = (if edge_set (as_tiled_edges mx) WLR_EDGE_BOTTOM then y g + height g
            else y g + height g + bottom m)\<rparr> \<and>
   expand_geometry_by_margins g m none = geometry_plus g m \<and>
   expand_geometry_by_margins g m full = g \<and>
   expand_geometry_by_margins g m horizontal =
     \<lparr>x = x g, y = y g - top' m, width = width g, height = height g + top' m + bottom m\<rparr> \<and>
   expand_geometry_by_margins g m vertical =
     \<lparr>x = x g - left m, y = y g, width = width g + left m + right m, height = height g\<rparr> \<and>
   shrink_geometry_by_margins (expand_geometry_by_margins g m mx) m mx = g \<and>
   expand_geometry_by_margins (shrink_geometry_by_margins g m mx) m mx = g"
  by (simp only: expand_geometry_by_margins_corners expand_geometry_by_margins_states
      shrink_expand_inverse simp_thms)

section \<open>The commit protocol\<close>

text \<open>
  C4. After the pending state is mutated and a transaction is issued, the committed state
  is exactly the mutated pending state and the current state is what it was; an
  acknowledgment leaves the committed and pending states alone, and when the client's
  size is the requested one it makes the current state equal to the committed state.
\<close>

theorem commit_protocol:
  "committed (issue_transaction (mutate_pending f t)) = f (pending t) \<and>
   committed (issue_transaction (mutate_pending f t)) =
     pending (issue_transaction (mutate_pending f t)) \<and>
   current (issue_transaction (mutate_pending f t)) = current t \<and>
   current (mutate_pending f t) = current t \<and>
   committed (mutate_pending f t) = committed t \<and>
   current (acknowledge (issue_transaction (mutate_pending f t))
      (dimensions (geometry (f (pending t))))) = f (pending t) \<and>
   current (acknowledge t' (dimensions (geometry (committed t')))) = committed t' \<and>
   committed (acknowledge t' actual) = committed t' \<and>
   pending (acknowledge t' actual) = pending t'"
  by (simp add: issue_transaction_def mutate_pending_def acknowledge_def
      adjust_geometry_for_gravity_def dimensions_def)

section \<open>Access to \<open>tiled_edges\<close>\<close>

text \<open>
  C5, as the sources have it. Only the five friend classes reach the field \<open>tiled_edges\<close>
  itself; all code, friend or not, reads it through \<open>get_tiled_edges\<close> and overwrites it
  through the public \<open>set_tiled_edges\<close>, which stores any mask unchecked, and through the
  public assignment from a \<open>maximization_t\<close>.
\<close>

theorem tiled_edges_access:
  "may_access c member_tiled_edges = is_friend c \<and>
   may_access c member_get_tiled_edges \<and>
   may_access c member_set_tiled_edges \<and>
   may_access c member_assign_maximization \<and>
   get_tiled_edges s = tiled_edges s \<and>
   set_tiled_edges s e = s\<lparr>tiled_edges := e\<rparr> \<and>
   get_tiled_edges (set_tiled_edges s e) = e \<and>
   get_tiled_edges (assign_maximization s mx) = as_tiled_edges mx"
  by (simp add: may_access_def get_tiled_edges_def set_tiled_edges_def assign_maximization_def)

text \<open>
  C5 as stated fails: code outside the friend list may call \<open>set_tiled_edges\<close>, and the
  call changes the tiled edges of a default state from none to all four.
\<close>

theorem tiled_edges_public_setter:
  "may_access other_code member_set_tiled_edges \<and>
   \<not> is_friend other_code \<and>
   get_tiled_edges default_state = 0 \<and>
   get_tiled_edges (set_tiled_edges default_state 15) = 15"
  by (simp add: may_access_def get_tiled_edges_def set_tiled_edges_def default_state_def)

section \<open>Intersection\<close>

lemma sint32_of_int:
  "- 2147483648 \<le> k \<Longrightarrow> k < 2147483648 \<Longrightarrow> sint (word_of_int k :: 32 word) = k"
  by (simp add: sint_sbintrunc' signed_take_bit_int_eq_self)

lemma sint32_bounds: "- 2147483648 \<le> sint (w :: 32 word) \<and> sint w < 2147483648"
  using sint_ge [of w] sint_lt [of w] by simp

text \<open>
  On overlapping boxes the corners and the size of the result are representable: the left
  and top edge are edges of an argument, and the size is at most the size of an argument.
\<close>

lemma intersection_edges:
  assumes "overlap a b"
  shows "left_edge (geometry_intersection u a b) = max (left_edge a) (left_edge b)"
    and "right_edge (geometry_intersection u a b) = min (right_edge a) (right_edge b)"
    and "top_edge (geometry_intersection u a b) = max (top_edge a) (top_edge b)"
    and "bottom_edge (geometry_intersection u a b) = min (bottom_edge a) (bottom_edge b)"
    and "sint (width (geometry_intersection u a b)) =
           min (right_edge a) (right_edge b) - max (left_edge a) (left_edge b)"
    and "sint (height (geometry_intersection u a b)) =
           min (bottom_edge a) (bottom_edge b) - max (top_edge a) (top_edge b)"
proof -
  let ?L = "max (left_edge a) (left_edge b)" and ?R = "min (right_edge a) (right_edge b)"
  let ?T = "max (top_edge a) (top_edge b)" and ?B = "min (bottom_edge a) (bottom_edge b)"
  note bnd = sint32_bounds [of "x a"] sint32_bounds [of "x b"] sint32_bounds [of "y a"]
    sint32_bounds [of "y b"] sint32_bounds [of "width a"] sint32_bounds [of "height a"]
  from assms have lt: "?L < ?R" "?T < ?B" by (simp_all add: overlap_def)
  have L: "sint (word_of_int ?L :: 32 word) = ?L"
    using bnd by (intro sint32_of_int) (auto simp: left_edge_def max_def)
  have T: "sint (word_of_int ?T :: 32 word) = ?T"
    using bnd by (intro sint32_of_int) (auto simp: top_edge_def max_def)
  have W: "sint (word_of_int (?R - ?L) :: 32 word) = ?R - ?L"
    using bnd lt(1)
    by (intro sint32_of_int) (auto simp: left_edge_def right_edge_def max_def min_def)
  have H: "sint (word_of_int (?B - ?T) :: 32 word) = ?B - ?T"
    using bnd lt(2)
    by (intro sint32_of_int) (auto simp: top_edge_def bottom_edge_def max_def min_def)
  show "left_edge (geometry_intersection u a b) = ?L"
    using assms L
    by (simp add: geometry_intersection_def
        left_edge_def [of "\<lparr>x = _, y = _, width = _, height = _\<rparr>"])
  show "top_edge (geometry_intersection u a b) = ?T"
    using assms T
    by (simp add: geometry_intersection_def
        top_edge_def [of "\<lparr>x = _, y = _, width = _, height = _\<rparr>"])
  show "right_edge (geometry_intersection u a b) = ?R"
    using assms L W
    by (simp add: geometry_intersection_def
        right_edge_def [of "\<lparr>x = _, y = _, width = _, height = _\<rparr>"])
  show "bottom_edge (geometry_intersection u a b) = ?B"
    using assms T H
    by (simp add: geometry_intersection_def
        bottom_edge_def [of "\<lparr>x = _, y = _, width = _, height = _\<rparr>"])
  show "sint (width (geometry_intersection u a b)) = ?R - ?L"
    using assms W by (simp add: geometry_intersection_def)
  show "sint (height (geometry_intersection u a b)) = ?B - ?T"
    using assms H by (simp add: geometry_intersection_def)
qed

lemma no_overlap_result:
  "\<not> overlap a b \<Longrightarrow>
   geometry_intersection u a b =
     \<lparr>x = point_t.x u, y = point_t.y u, width = 0, height = 0\<rparr>"
  by (simp add: geometry_intersection_def)

text \<open>The overlap test is the header's "have a common point".\<close>

lemma overlap_common_point:
  "overlap a b \<longleftrightarrow> (\<exists>p. point_inside a p \<and> point_inside b p)"
proof
  assume ov: "overlap a b"
  let ?L = "max (left_edge a) (left_edge b)" and ?T = "max (top_edge a) (top_edge b)"
  note bnd = sint32_bounds [of "x a"] sint32_bounds [of "x b"] sint32_bounds [of "y a"]
    sint32_bounds [of "y b"]
  have L: "sint (word_of_int ?L :: 32 word) = ?L"
    using bnd by (intro sint32_of_int) (auto simp: left_edge_def max_def)
  have T: "sint (word_of_int ?T :: 32 word) = ?T"
    using bnd by (intro sint32_of_int) (auto simp: top_edge_def max_def)
  let ?p = "\<lparr>point_t.x = word_of_int ?L, y = word_of_int ?T\<rparr>"
  from ov have "point_inside a ?p \<and> point_inside b ?p"
    unfolding point_inside_def overlap_def by (simp add: L T)
  then show "\<exists>p. point_inside a p \<and> point_inside b p" by blast
next
  assume "\<exists>p. point_inside a p \<and> point_inside b p"
  then show "overlap a b"
    unfolding point_inside_def overlap_def by auto
qed

lemma intersection_points:
  "point_inside (geometry_intersection u a b) p \<longleftrightarrow> point_inside a p \<and> point_inside b p"
proof (cases "overlap a b")
  case True
  show ?thesis
    unfolding point_inside_def intersection_edges [OF True] by auto
next
  case False
  then have "\<not> (point_inside a p \<and> point_inside b p)"
    using overlap_common_point by blast
  moreover have "\<not> point_inside (geometry_intersection u a b) p"
    by (simp add: no_overlap_result [OF False] point_inside_def left_edge_def right_edge_def)
  ultimately show ?thesis by blast
qed

text \<open>
  C6. When two boxes overlap, their intersection has positive width and height and lies
  inside both; when they do not, it has zero width and height, whatever its origin. In
  both cases the points of the result are exactly the points common to the two boxes.
\<close>

theorem geometry_intersection_spec:
  "(overlap a b \<longrightarrow>
      0 < sint (width (geometry_intersection u a b)) \<and>
      0 < sint (height (geometry_intersection u a b)) \<and>
      box_inside (geometry_intersection u a b) a \<and>
      box_inside (geometry_intersection u a b) b) \<and>
   (\<not> overlap a b \<longrightarrow>
      width (geometry_intersection u a b) = 0 \<and> height (geometry_intersection u a b) = 0) \<and>
   (\<forall>p. point_inside (geometry_intersection u a b) p \<longleftrightarrow>
      point_inside a p \<and> point_inside b p)"
proof (intro conjI impI allI)
  assume ov: "overlap a b"
  then have lt: "max (left_edge a) (left_edge b) < min (right_edge a) (right_edge b)"
    "max (top_edge a) (top_edge b) < min (bottom_edge a) (bottom_edge b)"
    by (simp_all add: overlap_def)
  from lt show "0 < sint (width (geometry_intersection u a b))"
    by (simp add: intersection_edges [OF ov])
  from lt show "0 < sint (height (geometry_intersection u a b))"
    by (simp add: intersection_edges [OF ov])
  show "box_inside (geometry_intersection u a b) a"
    by (simp add: box_inside_def intersection_edges [OF ov])
  show "box_inside (geometry_intersection u a b) b"
    by (simp add: box_inside_def intersection_edges [OF ov])
next
  assume "\<not> overlap a b"
  then show "width (geometry_intersection u a b) = 0"
    by (simp add: no_overlap_result)
next
  assume "\<not> overlap a b"
  then show "height (geometry_intersection u a b) = 0"
    by (simp add: no_overlap_result)
next
  fix p
  show "point_inside (geometry_intersection u a b) p \<longleftrightarrow>
      point_inside a p \<and> point_inside b p"
    by (rule intersection_points)
qed

theorem geometry_intersection_spec_witness:
  "overlap \<lparr>x = 0, y = 0, width = 10, height = 10\<rparr> \<lparr>x = 5, y = 5, width = 10, height = 10\<rparr> \<and>
   geometry_intersection \<lparr>point_t.x = 7, y = 7\<rparr>
       \<lparr>x = 0, y = 0, width = 10, height = 10\<rparr> \<lparr>x = 5, y = 5, width = 10, height = 10\<rparr> =
     \<lparr>x = 5, y = 5, width = 5, height = 5\<rparr> \<and>
   box_inside \<lparr>x = 5, y = 5, width = 5, height = 5\<rparr> \<lparr>x = 0, y = 0, width = 10, height = 10\<rparr> \<and>
   box_inside \<lparr>x = 5, y = 5, width = 5, height = 5\<rparr> \<lparr>x = 5, y = 5, width = 10, height = 10\<rparr> \<and>
   \<not> overlap \<lparr>x = 0, y = 0, width = 10, height = 10\<rparr> \<lparr>x = 10, y = 0, width = 5, height = 5\<rparr> \<and>
   geometry_intersection \<lparr>point_t.x = 7, y = 7\<rparr>
       \<lparr>x = 0, y = 0, width = 10, height = 10\<rparr> \<lparr>x = 10, y = 0, width = 5, height = 5\<rparr> =
     \<lparr>x = 7, y = 7, width = 0, height = 0\<rparr>"
proof -
  let ?u = "\<lparr>point_t.x = 7, y = 7\<rparr>"
  let ?a = "\<lparr>x = 0, y = 0, width = 10, height = 10\<rparr>"
  let ?b = "\<lparr>x = 5, y = 5, width = 10, height = 10\<rparr>"
  let ?c = "\<lparr>x = 10, y = 0, width = 5, height = 5\<rparr>"
  have ov: "overlap ?a ?b"
    by (simp add: overlap_def left_edge_def right_edge_def top_edge_def bottom_edge_def)
  have no: "\<not> overlap ?a ?c"
    by (simp add: overlap_def left_edge_def right_edge_def top_edge_def bottom_edge_def)
  have r1: "geometry_intersection ?u ?a ?b = \<lparr>x = 5, y = 5, width = 5, height = 5\<rparr>"
    using ov
    by (simp add: geometry_intersection_def left_edge_def right_edge_def top_edge_def
        bottom_edge_def)
  have r2: "geometry_intersection ?u ?a ?c = \<lparr>x = 7, y = 7, width = 0, height = 0\<rparr>"
    using no by (simp add: geometry_intersection_def)
  from geometry_intersection_spec [of ?a ?b ?u] ov
  have "box_inside (geometry_intersection ?u ?a ?b) ?a \<and>
      box_inside (geometry_intersection ?u ?a ?b) ?b"
    by blast
  then have in1: "box_inside \<lparr>x = 5, y = 5, width = 5, height = 5\<rparr> ?a \<and>
      box_inside \<lparr>x = 5, y = 5, width = 5, height = 5\<rparr> ?b"
    by (simp only: r1)
  from geometry_intersection_spec [of ?a ?c ?u] no
  have "width (geometry_intersection ?u ?a ?c) = 0 \<and> height (geometry_intersection ?u ?a ?c) = 0"
    by blast
  with ov no r1 r2 in1 show ?thesis by blast
qed

section \<open>Rounding a floating point\<close>

lemma truncate_negative_fraction:
  assumes "r < 0" and "r \<notin> \<int>"
  shows "truncate_toward_zero r = \<lfloor>r\<rfloor> + 1"
proof -
  from assms(2) have "r \<noteq> of_int \<lfloor>r\<rfloor>"
    by (metis Ints_of_int)
  with assms(1) show ?thesis
    by (simp add: truncate_toward_zero_def ceiling_altdef)
qed

lemma truncate_floor:
  assumes "0 \<le> r \<or> r \<in> \<int>"
  shows "truncate_toward_zero r = \<lfloor>r\<rfloor>"
  using assms by (auto simp: truncate_toward_zero_def elim: Ints_cases)

text \<open>Truncation drops less than one unit and never crosses zero.\<close>

lemma truncate_magnitude:
  "\<bar>of_int (truncate_toward_zero r)\<bar> \<le> \<bar>r\<bar> \<and>
   \<bar>r\<bar> < \<bar>of_int (truncate_toward_zero r)\<bar> + 1 \<and>
   0 \<le> r * of_int (truncate_toward_zero r)"
proof (cases "0 \<le> r")
  case True
  then have k: "truncate_toward_zero r = \<lfloor>r\<rfloor>" and f: "0 \<le> \<lfloor>r\<rfloor>"
    by (simp_all add: truncate_toward_zero_def)
  from f have "(0::real) \<le> of_int \<lfloor>r\<rfloor>" by simp
  with True show ?thesis
    unfolding k by (intro conjI mult_nonneg_nonneg) linarith+
next
  case False
  then have k: "truncate_toward_zero r = \<lceil>r\<rceil>" and c: "\<lceil>r\<rceil> \<le> 0"
    by (simp_all add: truncate_toward_zero_def ceiling_le_zero)
  from c have "of_int \<lceil>r\<rceil> \<le> (0::real)" by simp
  with False show ?thesis
    unfolding k by (intro conjI mult_nonpos_nonpos) linarith+
qed

lemma truncate_in_range:
  assumes "- 2147483649 < r" and "r < 2147483648"
  shows "- 2147483648 \<le> truncate_toward_zero r \<and> truncate_toward_zero r < 2147483648"
proof -
  from assms(1) have "- 2147483649 < \<lceil>r\<rceil>" by linarith
  moreover from assms(2) have "\<lfloor>r\<rfloor> < 2147483648" by linarith
  moreover have "\<lfloor>r\<rfloor> \<le> \<lceil>r\<rceil>" by linarith
  ultimately show ?thesis by (simp add: truncate_toward_zero_def)
qed

lemma static_cast_int_in_range:
  assumes "- 2147483649 < r" and "r < 2147483648"
  shows "sint (static_cast_int (Finite r)) = truncate_toward_zero r"
  using truncate_in_range [OF assms]
  by (simp add: static_cast_int_def Let_def sint32_of_int)

text \<open>
  C10, as the sources have it. \<open>round_down\<close> casts each coordinate to \<open>int\<close> on its own. A
  coordinate that is finite and whose truncation fits an \<open>int\<close> (it lies strictly between
  \<open>-2147483649\<close> and \<open>2147483648\<close>) becomes its value truncated toward zero, whatever the other
  coordinate is: the result is no larger in magnitude, less than one unit away and of the
  same sign; it is the floor for a non-negative or integral coordinate, and the floor plus
  one, so strictly above the floor, for a negative coordinate that is not an integer.
  \<open>-2.5\<close> becomes \<open>-2\<close>, and its floor is \<open>-3\<close>.
\<close>

theorem round_down_truncates_in_range:
  "(pointf_t.x p = Finite a \<and> - 2147483649 < a \<and> a < 2147483648 \<longrightarrow>
      sint (point_t.x (round_down p)) = truncate_toward_zero a \<and>
      \<bar>of_int (sint (point_t.x (round_down p)))\<bar> \<le> \<bar>a\<bar> \<and>
      \<bar>a\<bar> < \<bar>of_int (sint (point_t.x (round_down p)))\<bar> + 1 \<and>
      0 \<le> a * of_int (sint (point_t.x (round_down p))) \<and>
      (0 \<le> a \<or> a \<in> \<int> \<longrightarrow> sint (point_t.x (round_down p)) = \<lfloor>a\<rfloor>) \<and>
      (a < 0 \<and> a \<notin> \<int> \<longrightarrow>
         sint (point_t.x (round_down p)) = \<lfloor>a\<rfloor> + 1 \<and>
         \<lfloor>a\<rfloor> < sint (point_t.x (round_down p)))) \<and>
   (pointf_t.y p = Finite b \<and> - 2147483649 < b \<and> b < 2147483648 \<longrightarrow>
      sint (point_t.y (round_down p)) = truncate_toward_zero b \<and>
      \<bar>of_int (sint (point_t.y (round_down p)))\<bar> \<le> \<bar>b\<bar> \<and>
      \<bar>b\<bar> < \<bar>of_int (sint (point_t.y (round_down p)))\<bar> + 1 \<and>
      0 \<le> b * of_int (sint (point_t.y (round_down p))) \<and>
      (0 \<le> b \<or> b \<in> \<int> \<longrightarrow> sint (point_t.y (round_down p)) = \<lfloor>b\<rfloor>) \<and>
      (b < 0 \<and> b \<notin> \<int> \<longrightarrow>
         sint (point_t.y (round_down p)) = \<lfloor>b\<rfloor> + 1 \<and>
         \<lfloor>b\<rfloor> < sint (point_t.y (round_down p)))) \<and>
   round_down \<lparr>pointf_t.x = Finite (- 5 / 2), y = Finite (- 5 / 2)\<rparr> =
     \<lparr>point_t.x = - 2, y = - 2\<rparr> \<and>
   \<lfloor>- 5 / 2 :: real\<rfloor> = - 3"
proof -
  have coord: "sint (static_cast_int (Finite r)) = truncate_toward_zero r \<and>
      \<bar>of_int (sint (static_cast_int (Finite r)))\<bar> \<le> \<bar>r\<bar> \<and>
      \<bar>r\<bar> < \<bar>of_int (sint (static_cast_int (Finite r)))\<bar> + 1 \<and>
      0 \<le> r * of_int (sint (static_cast_int (Finite r))) \<and>
      (0 \<le> r \<or> r \<in> \<int> \<longrightarrow> sint (static_cast_int (Finite r)) = \<lfloor>r\<rfloor>) \<and>
      (r < 0 \<and> r \<notin> \<int> \<longrightarrow>
         sint (static_cast_int (Finite r)) = \<lfloor>r\<rfloor> + 1 \<and>
         \<lfloor>r\<rfloor> < sint (static_cast_int (Finite r)))"
    if "- 2147483649 < r" and "r < 2147483648" for r
    unfolding static_cast_int_in_range [OF that]
    using truncate_magnitude [of r] truncate_floor [of r] truncate_negative_fraction [of r]
    by auto
  have px: "point_t.x (round_down p) = static_cast_int (pointf_t.x p)"
    and py: "point_t.y (round_down p) = static_cast_int (pointf_t.y p)"
    by (simp_all add: round_down_def)
  have ex: "round_down \<lparr>pointf_t.x = Finite (- 5 / 2), y = Finite (- 5 / 2)\<rparr> =
      \<lparr>point_t.x = - 2, y = - 2\<rparr>"
    by (simp add: round_down_def static_cast_int_def truncate_toward_zero_def)
  have fl: "\<lfloor>- 5 / 2 :: real\<rfloor> = - 3" by simp
  show ?thesis
  proof (intro conjI)
    show "pointf_t.x p = Finite a \<and> - 2147483649 < a \<and> a < 2147483648 \<longrightarrow>
      sint (point_t.x (round_down p)) = truncate_toward_zero a \<and>
      \<bar>of_int (sint (point_t.x (round_down p)))\<bar> \<le> \<bar>a\<bar> \<and>
      \<bar>a\<bar> < \<bar>of_int (sint (point_t.x (round_down p)))\<bar> + 1 \<and>
      0 \<le> a * of_int (sint (point_t.x (round_down p))) \<and>
      (0 \<le> a \<or> a \<in> \<int> \<longrightarrow> sint (point_t.x (round_down p)) = \<lfloor>a\<rfloor>) \<and>
      (a < 0 \<and> a \<notin> \<int> \<longrightarrow>
         sint (point_t.x (round_down p)) = \<lfloor>a\<rfloor> + 1 \<and>
         \<lfloor>a\<rfloor> < sint (point_t.x (round_down p)))"
      using coord [of a] by (simp only: px) metis
    show "pointf_t.y p = Finite b \<and> - 2147483649 < b \<and> b < 2147483648 \<longrightarrow>
      sint (point_t.y (round_down p)) = truncate_toward_zero b \<and>
      \<bar>of_int (sint (point_t.y (round_down p)))\<bar> \<le> \<bar>b\<bar> \<and>
      \<bar>b\<bar> < \<bar>of_int (sint (point_t.y (round_down p)))\<bar> + 1 \<and>
      0 \<le> b * of_int (sint (point_t.y (round_down p))) \<and>
      (0 \<le> b \<or> b \<in> \<int> \<longrightarrow> sint (point_t.y (round_down p)) = \<lfloor>b\<rfloor>) \<and>
      (b < 0 \<and> b \<notin> \<int> \<longrightarrow>
         sint (point_t.y (round_down p)) = \<lfloor>b\<rfloor> + 1 \<and>
         \<lfloor>b\<rfloor> < sint (point_t.y (round_down p)))"
      using coord [of b] by (simp only: py) metis
  qed (rule ex fl)+
qed

theorem round_down_truncates_in_range_witness:
  "pointf_t.x \<lparr>pointf_t.x = Finite (- 7 / 4), y = NaN\<rparr> = Finite (- 7 / 4) \<and>
   (- 2147483649 :: real) < - 7 / 4 \<and> (- 7 / 4 :: real) < 2147483648 \<and>
   (- 7 / 4 :: real) < 0 \<and> (- 7 / 4 :: real) \<notin> \<int> \<and>
   sint (point_t.x (round_down \<lparr>pointf_t.x = Finite (- 7 / 4), y = NaN\<rparr>)) =
     \<lfloor>- 7 / 4 :: real\<rfloor> + 1 \<and>
   \<lfloor>- 7 / 4 :: real\<rfloor> = - 2 \<and>
   pointf_t.y \<lparr>pointf_t.x = PlusInfinity, y = Finite (9 / 2)\<rparr> = Finite (9 / 2) \<and>
   (- 2147483649 :: real) < 9 / 2 \<and> (9 / 2 :: real) < 2147483648 \<and> (0 :: real) \<le> 9 / 2 \<and>
   sint (point_t.y (round_down \<lparr>pointf_t.x = PlusInfinity, y = Finite (9 / 2)\<rparr>)) =
     \<lfloor>9 / 2 :: real\<rfloor> \<and>
   \<lfloor>9 / 2 :: real\<rfloor> = 4"
proof -
  let ?p = "\<lparr>pointf_t.x = Finite (- 7 / 4), y = NaN\<rparr>"
  let ?q = "\<lparr>pointf_t.x = PlusInfinity, y = Finite (9 / 2)\<rparr>"
  have n: "(- 7 / 4 :: real) \<notin> \<int>"
  proof
    assume "(- 7 / 4 :: real) \<in> \<int>"
    then obtain k :: int where "(- 7 / 4 :: real) = of_int k" by (auto elim: Ints_cases)
    then have "of_int (4 * k) = (of_int (- 7) :: real)" by simp
    then have "4 * k = - 7" by (simp only: of_int_eq_iff)
    then show False by presburger
  qed
  have hx: "pointf_t.x ?p = Finite (- 7 / 4) \<and> (- 2147483649 :: real) < - 7 / 4 \<and>
      (- 7 / 4 :: real) < 2147483648"
    by simp
  have neg: "(- 7 / 4 :: real) < 0 \<and> (- 7 / 4 :: real) \<notin> \<int>"
    using n by simp
  have hy: "pointf_t.y ?q = Finite (9 / 2) \<and> (- 2147483649 :: real) < 9 / 2 \<and>
      (9 / 2 :: real) < 2147483648"
    by simp
  have pos: "(0 :: real) \<le> 9 / 2 \<or> (9 / 2 :: real) \<in> \<int>"
    by simp
  from round_down_truncates_in_range [of ?p "- 7 / 4" 0] hx neg
  have rx: "sint (point_t.x (round_down ?p)) = \<lfloor>- 7 / 4 :: real\<rfloor> + 1"
    by blast
  from round_down_truncates_in_range [of ?q 0 "9 / 2"] hy pos
  have ry: "sint (point_t.y (round_down ?q)) = \<lfloor>9 / 2 :: real\<rfloor>"
    by blast
  have fx: "\<lfloor>- 7 / 4 :: real\<rfloor> = - 2" and fy: "\<lfloor>9 / 2 :: real\<rfloor> = 4" and p0: "(0 :: real) \<le> 9 / 2"
    by simp_all
  from hx neg rx fx hy p0 ry fy show ?thesis by blast
qed

text \<open>
  C10 as stated, for every point, fails: a coordinate outside the range of \<open>int\<close>, here
  \<open>-3000000000.5\<close>, does not come out truncated (that would be \<open>-3000000000\<close>) but as
  \<open>INT_MIN\<close>, and so does a NaN.
\<close>

theorem round_down_out_of_range:
  "sint (point_t.x (round_down \<lparr>pointf_t.x = Finite (- 6000000001 / 2), y = NaN\<rparr>)) =
     - 2147483648 \<and>
   truncate_toward_zero (- 6000000001 / 2) = - 3000000000 \<and>
   sint (point_t.x (round_down \<lparr>pointf_t.x = Finite (- 6000000001 / 2), y = NaN\<rparr>)) \<noteq>
     truncate_toward_zero (- 6000000001 / 2) \<and>
   sint (point_t.y (round_down \<lparr>pointf_t.x = Finite (- 6000000001 / 2), y = NaN\<rparr>)) =
     - 2147483648"
  by (simp add: round_down_def static_cast_int_def truncate_toward_zero_def INT_MIN_def)

end
